theory Spec2Isabelle
  imports Main "HOL-Library.Multiset"
begin

section \<open>Matching engine (server/routes.ts, generateMatching)\<close>

text \<open>
  Participant ids are strings. \<open>Math.random\<close> is modelled by a random source: an
  infinite sequence of naturals, read from the front. \<open>Math.floor(Math.random() * m)\<close>
  is some integer in \<open>0 .. m - 1\<close>; the model takes the next natural of the source
  modulo \<open>m\<close>, so every value the source code can draw is drawn by some random source.
\<close>

type_synonym rng = "nat \<Rightarrow> nat"

definition random_index :: "nat \<Rightarrow> rng \<Rightarrow> nat \<times> rng" where
  "random_index m r = (r 0 mod m, \<lambda>k. r (Suc k))"

text \<open>
  The Fisher-Yates loop \<open>for (let i = result.length - 1; i > 0; i--)\<close>; the
  destructuring swap reads both cells before it writes them.
\<close>

fun shuffle_loop :: "nat \<Rightarrow> 'a list \<Rightarrow> rng \<Rightarrow> 'a list \<times> rng" where
  "shuffle_loop 0 xs r = (xs, r)"
| "shuffle_loop (Suc k) xs r =
     (case random_index (Suc k + 1) r of
        (j, r') \<Rightarrow> shuffle_loop k (xs[Suc k := xs ! j, j := xs ! Suc k]) r')"

definition shuffle :: "'a list \<Rightarrow> rng \<Rightarrow> 'a list \<times> rng" where
  "shuffle xs r = shuffle_loop (length xs - 1) xs r"

text \<open>The exclusion set holds the keys \<open>`${participantId}-${excludedParticipantId}`\<close>.\<close>

definition exclusionKey :: "string \<Rightarrow> string \<Rightarrow> string" where
  "exclusionKey a b = a @ ''-'' @ b"

definition exclusionSet :: "(string \<times> string) list \<Rightarrow> string set" where
  "exclusionSet exclusionPairs = set (map (\<lambda>(a, b). exclusionKey a b) exclusionPairs)"

definition isValidAssignment :: "string set \<Rightarrow> string \<Rightarrow> string \<Rightarrow> bool" where
  "isValidAssignment es giverId receiverId =
     (if giverId = receiverId then False
      else if exclusionKey giverId receiverId \<in> es then False
      else True)"

text \<open>
  \<open>findAssignment\<close> with its \<open>for (const receiver of shuffledReceivers)\<close> loop as a
  second function: \<open>tryReceivers\<close> walks the shuffled receivers that are left, and
  threads the random source through the recursive calls.
\<close>

function findAssignment ::
    "string set \<Rightarrow> string list \<Rightarrow> string list \<Rightarrow> (string \<times> string) list \<Rightarrow> rng
      \<Rightarrow> (string \<times> string) list option \<times> rng"
  and tryReceivers ::
    "string set \<Rightarrow> string \<Rightarrow> string list \<Rightarrow> string list \<Rightarrow> string list
      \<Rightarrow> (string \<times> string) list \<Rightarrow> rng \<Rightarrow> (string \<times> string) list option \<times> rng"
where
  "findAssignment es [] receivers current r = (Some current, r)"
| "findAssignment es (giver # remainingGivers) receivers current r =
     (case shuffle receivers r of
        (shuffledReceivers, r') \<Rightarrow>
          tryReceivers es giver remainingGivers receivers shuffledReceivers current r')"
| "tryReceivers es giver remainingGivers receivers [] current r = (None, r)"
| "tryReceivers es giver remainingGivers receivers (receiver # rest) current r =
     (if isValidAssignment es giver receiver then
        (case findAssignment es remainingGivers (filter (\<lambda>x. x \<noteq> receiver) receivers)
                (current @ [(giver, receiver)]) r of
           (Some result, r') \<Rightarrow> (Some result, r')
         | (None, r') \<Rightarrow> tryReceivers es giver remainingGivers receivers rest current r')
      else tryReceivers es giver remainingGivers receivers rest current r)"
  by pat_completeness auto
termination
  by (relation "inv_image (less_than <*lex*> less_than) (\<lambda>x. case x of
        Inl (es, givers, receivers, current, r) \<Rightarrow> (length givers, 0)
      | Inr (es, giver, remainingGivers, receivers, rest, current, r) \<Rightarrow>
          (length remainingGivers, Suc (length rest)))") auto

text \<open>
  What a result of \<open>findAssignment\<close> is to its arguments: the pairs found so far,
  followed by one pair for each giver that was left, in order, with receivers that are
  distinct, are among the receivers that were left, and are valid for their givers.
\<close>

definition extends_ok ::
    "string set \<Rightarrow> string list \<Rightarrow> string list \<Rightarrow> (string \<times> string) list
      \<Rightarrow> (string \<times> string) list \<Rightarrow> bool"
where
  "extends_ok es givers receivers current res \<longleftrightarrow>
     (\<exists>ext. res = current @ ext \<and> map fst ext = givers \<and> distinct (map snd ext)
        \<and> set (map snd ext) \<subseteq> set receivers \<and> (\<forall>(g, x) \<in> set ext. isValidAssignment es g x))"

text \<open>
  The restart loop \<open>for (let attempt = 0; attempt < 100; attempt++)\<close>. The model
  returns, with the result, the value of \<open>attempt\<close> when the loop is left and the
  random source as it is then.
\<close>

function attemptLoop ::
    "nat \<Rightarrow> string set \<Rightarrow> string list \<Rightarrow> rng
      \<Rightarrow> (string \<times> string) list option \<times> nat \<times> rng"
where
  "attemptLoop attempt es participantIds r =
     (if attempt < 100 then
        (case shuffle participantIds r of
           (shuffledGivers, r1) \<Rightarrow>
             (case shuffle participantIds r1 of
                (shuffledReceivers, r2) \<Rightarrow>
                  (case findAssignment es shuffledGivers shuffledReceivers [] r2 of
                     (Some result, r3) \<Rightarrow> (Some result, attempt, r3)
                   | (None, r3) \<Rightarrow> attemptLoop (attempt + 1) es participantIds r3)))
      else (None, attempt, r))"
  by pat_completeness auto
termination
  by (relation "measure (\<lambda>(attempt, es, participantIds, r). 100 - attempt)") auto

declare attemptLoop.simps [simp del]

definition generateMatching_run ::
    "string list \<Rightarrow> (string \<times> string) list \<Rightarrow> rng
      \<Rightarrow> (string \<times> string) list option \<times> nat \<times> rng"
where
  "generateMatching_run participantIds exclusionPairs r =
     (if length participantIds < 2 then (None, 0, r)
      else attemptLoop 0 (exclusionSet exclusionPairs) participantIds r)"

definition generateMatching ::
    "string list \<Rightarrow> (string \<times> string) list \<Rightarrow> rng \<Rightarrow> (string \<times> string) list option"
where
  "generateMatching participantIds exclusionPairs r =
     fst (generateMatching_run participantIds exclusionPairs r)"

text \<open>
  The route \<open>POST /api/events/match\<close>, as far as its answer goes: the participants
  are given by their ids (\<open>participants.map((p) => p.id)\<close>).
\<close>

datatype match_response =
    NeedAtLeast3Participants
  | CouldNotFindValidMatching
  | MatchSuccess nat

definition matchRoute ::
    "string list \<Rightarrow> (string \<times> string) list \<Rightarrow> rng \<Rightarrow> match_response"
where
  "matchRoute participantIds exclusionPairs r =
     (if length participantIds < 3 then NeedAtLeast3Participants
      else (case generateMatching participantIds exclusionPairs r of
              None \<Rightarrow> CouldNotFindValidMatching
            | Some matching \<Rightarrow> MatchSuccess (length matching)))"

definition zero_rng :: rng where
  "zero_rng = (\<lambda>k. 0)"

section \<open>Data model (shared/schema.ts) and the store (server/storage.ts)\<close>

text \<open>
  Instants (\<open>Date\<close>, \<open>timestamp\<close> columns) are milliseconds since the epoch, as
  integers. A nullable column is an \<open>option\<close>. The boolean columns of \<open>assignments\<close>
  default to \<open>false\<close> and are only ever written with booleans; they are \<open>bool\<close>.
\<close>

record participant =
  p_id :: string
  name :: string
  email :: string
  slackUserId :: "string option"
  address :: string
  country :: "string option"
  city :: "string option"
  zipCode :: "string option"
  street :: "string option"
  phone :: "string option"
  wishlist :: "string option"
  p_notes :: "string option"
  timezone :: "string option"
  timezoneOffset :: "int option"

text \<open>\<open>AssignmentWithDetails\<close>: an assignment row joined with its giver and receiver.\<close>

record assignment =
  a_id :: string
  eventId :: string
  giver :: participant
  receiver :: participant
  notified :: bool
  notifiedAt :: "int option"
  giftSent :: bool
  giftSentAt :: "int option"
  lastReminderAt :: "int option"
  nextReminderAt :: "int option"
  receiverNotified :: bool

record event =
  ev_id :: string
  ev_name :: string
  scheduledDate :: "int option"
  ev_status :: string
  matchingComplete :: bool
  notificationsSent :: bool
  messageTemplate :: "string option"

record exclusion =
  e_id :: string
  participantId :: string
  excludedParticipantId :: string

datatype onboarding_state =
    Invited | AwaitingConsent | CollectingName | CollectingCountry | CollectingCity
  | CollectingZip | CollectingStreet | CollectingPhone | CollectingNotes
  | Completed | Declined

datatype contact_status =
    StatusImported | StatusInvited | StatusInProgress | StatusCompleted | StatusDeclined

record slackContact =
  c_id :: string
  c_slackUserId :: string
  slackUsername :: string
  displayName :: string
  c_email :: "string option"
  status :: contact_status
  respondedAt :: "int option"

record onboardingSession =
  s_id :: string
  s_slackUserId :: string
  conversationState :: onboarding_state
  collectedName :: "string option"
  collectedCountry :: "string option"
  collectedStreet :: "string option"
  collectedCity :: "string option"
  collectedZip :: "string option"
  collectedPhone :: "string option"
  collectedNotes :: "string option"
  lastInteractionAt :: "int option"

record slackSettings =
  botToken :: "string option"
  adminSlackId :: "string option"

text \<open>
  Outbound chat messages. The wording of a message is not modelled, only which message it
  is and the values spliced into it.
\<close>

datatype prompt =
    WelcomeAskName | NoProblemDeclined | PleaseReplyYesOrNo
  | ThanksAskCountry string | PleaseEnterName
  | AskCity | PleaseEnterCountry
  | AskZip | PleaseEnterCity
  | AskStreet | PleaseEnterZip
  | AskPhone | PleaseEnterStreet
  | AskNotes | PleaseEnterPhone
  | AllSet "string option" string

datatype message =
    AssignmentNotice string string participant string
  | GiftReminder bool string string
  | GiftOnItsWay
  | ThankYouForConfirming string
  | PleaseSendSoon string
  | OnboardingPrompt prompt

record outbound =
  channel :: string
  body :: message

text \<open>
  The state of the system: the tables of the database, the environment variable
  \<open>SLACK_BOT_TOKEN\<close>, and the requests made to \<open>chat.postMessage\<close> so far (in order).
  The rows of a table are in the order in which the queries of the source return them.
\<close>

record sys =
  participants :: "participant list"
  events :: "event list"
  assignments :: "assignment list"
  exclusions :: "exclusion list"
  settings :: "slackSettings option"
  envSlackBotToken :: "string option"
  slackContacts :: "slackContact list"
  sessions :: "onboardingSession list"
  outbox :: "outbound list"

text \<open>JavaScript truthiness of a \<open>string | null\<close>: neither null nor empty.\<close>

fun truthy :: "string option \<Rightarrow> bool" where
  "truthy None = False"
| "truthy (Some s) = (s \<noteq> [])"

definition getSlackToken :: "sys \<Rightarrow> string option" where
  "getSlackToken st =
     (case settings st of
        Some s \<Rightarrow> if truthy (botToken s) then botToken s
                  else if truthy (envSlackBotToken st) then envSlackBotToken st else None
      | None \<Rightarrow> if truthy (envSlackBotToken st) then envSlackBotToken st else None)"

definition getAdminContactMention :: "sys \<Rightarrow> string" where
  "getAdminContactMention st =
     (case settings st of
        Some s \<Rightarrow> (case adminSlackId s of
                     Some a \<Rightarrow> if a \<noteq> [] then ''<@'' @ a @ ''>'' else ''the organizer''
                   | None \<Rightarrow> ''the organizer'')
      | None \<Rightarrow> ''the organizer'')"

text \<open>
  The network. Each \<open>fetch\<close> takes the next answer of the outside world: the request
  fails (the promise rejects) or a JSON reply comes back, of which the source reads
  \<open>ok\<close>, \<open>user.id\<close>, \<open>user.tz\<close> and \<open>user.tz_offset\<close>.
\<close>

record reply =
  ok :: bool
  hasUser :: bool
  user_id :: string
  user_tz :: "string option"
  user_tz_offset :: "int option"

datatype fetch_result = FetchThrows | FetchReturns reply

type_synonym network = "nat \<Rightarrow> fetch_result"

definition fetch :: "network \<Rightarrow> fetch_result \<times> network" where
  "fetch w = (w 0, \<lambda>k. w (Suc k))"

definition postMessage :: "string \<Rightarrow> message \<Rightarrow> sys \<Rightarrow> sys" where
  "postMessage ch m st = st\<lparr>outbox := outbox st @ [\<lparr>channel = ch, body = m\<rparr>]\<rparr>"

text \<open>What a handler does: it returns a value, or it throws (its promise rejects).\<close>

datatype 'a outcome = Returned 'a | Thrown

subsection \<open>Updates of the assignments table\<close>

definition updateWhere :: "('a \<Rightarrow> bool) \<Rightarrow> ('a \<Rightarrow> 'a) \<Rightarrow> 'a list \<Rightarrow> 'a list" where
  "updateWhere p f rows = map (\<lambda>row. if p row then f row else row) rows"


definition updateAssignmentGiftStatus :: "int \<Rightarrow> string \<Rightarrow> bool \<Rightarrow> sys \<Rightarrow> sys" where
  "updateAssignmentGiftStatus now i sent st =
     st\<lparr>assignments := updateWhere (\<lambda>a. a_id a = i)
            (\<lambda>a. a\<lparr>giftSent := sent, giftSentAt := (if sent then Some now else None)\<rparr>)
            (assignments st)\<rparr>"

definition updateAssignmentReminderSent :: "int \<Rightarrow> string \<Rightarrow> int \<Rightarrow> sys \<Rightarrow> sys" where
  "updateAssignmentReminderSent now i next st =
     st\<lparr>assignments := updateWhere (\<lambda>a. a_id a = i)
            (\<lambda>a. a\<lparr>lastReminderAt := Some now, nextReminderAt := Some next\<rparr>)
            (assignments st)\<rparr>"

definition updateAssignmentNextReminder :: "string \<Rightarrow> int \<Rightarrow> sys \<Rightarrow> sys" where
  "updateAssignmentNextReminder i next st =
     st\<lparr>assignments := updateWhere (\<lambda>a. a_id a = i)
            (\<lambda>a. a\<lparr>nextReminderAt := Some next\<rparr>) (assignments st)\<rparr>"

definition updateAssignmentReceiverNotified :: "string \<Rightarrow> sys \<Rightarrow> sys" where
  "updateAssignmentReceiverNotified i st =
     st\<lparr>assignments := updateWhere (\<lambda>a. a_id a = i)
            (\<lambda>a. a\<lparr>receiverNotified := True\<rparr>) (assignments st)\<rparr>"


definition getAssignmentsNeedingReminder :: "sys \<Rightarrow> assignment list" where
  "getAssignmentsNeedingReminder st =
     filter (\<lambda>a. notified a = True \<and> giftSent a = False) (assignments st)"






section \<open>Creating an exclusion\<close>

text \<open>
  The request body of \<open>POST /api/exclusions\<close> is a JSON object, here the values under
  its keys. \<open>insertExclusionSchema\<close> is the insert schema of the \<open>exclusions\<close> table
  without \<open>id\<close>: both remaining columns are \<open>notNull\<close> strings. The table's two
  columns reference \<open>participants.id\<close>, so the insert fails (and the route answers 500)
  unless both ids are ids of participants. The new row's \<open>id\<close> is the database's
  \<open>gen_random_uuid()\<close>, a parameter here.
\<close>

datatype json = JString string | JNumber int | JBool bool | JNull

type_synonym json_object = "string \<Rightarrow> json option"

definition insertExclusionSchema_parse :: "json_object \<Rightarrow> (string \<times> string) option" where
  "insertExclusionSchema_parse b =
     (case (b ''participantId'', b ''excludedParticipantId'') of
        (Some (JString a), Some (JString e)) \<Rightarrow> Some (a, e)
      | _ \<Rightarrow> None)"

datatype exclusion_response =
    Status400_ZodError
  | Status500_FailedToCreate
  | ExclusionCreated exclusion

definition createExclusion :: "string \<Rightarrow> string \<times> string \<Rightarrow> sys \<Rightarrow> (exclusion \<times> sys) option" where
  "createExclusion newId d st =
     (if fst d \<in> set (map p_id (participants st)) \<and> snd d \<in> set (map p_id (participants st))
      then let row = \<lparr>e_id = newId, participantId = fst d, excludedParticipantId = snd d\<rparr>
           in Some (row, st\<lparr>exclusions := exclusions st @ [row]\<rparr>)
      else None)"

definition postExclusions :: "string \<Rightarrow> json_object \<Rightarrow> sys \<Rightarrow> exclusion_response \<times> sys" where
  "postExclusions newId b st =
     (case insertExclusionSchema_parse b of
        None \<Rightarrow> (Status400_ZodError, st)
      | Some d \<Rightarrow>
          (case createExclusion newId d st of
             None \<Rightarrow> (Status500_FailedToCreate, st)
           | Some (row, st') \<Rightarrow> (ExclusionCreated row, st')))"

definition getExclusionPairs :: "sys \<Rightarrow> (string \<times> string) list" where
  "getExclusionPairs st = map (\<lambda>e. (participantId e, excludedParticipantId e)) (exclusions st)"

text \<open>
  The dialog of the client (\<open>ExclusionDialog\<close>, \<open>handleAddExclusion\<close>): it shows an
  error toast, or it posts the two selected ids.
\<close>

datatype dialog_action =
    ToastSelectBoth
  | ToastCannotExcludeSelf
  | PostExclusion json_object

definition handleAddExclusion :: "string \<Rightarrow> string \<Rightarrow> dialog_action" where
  "handleAddExclusion participantId' excludedId =
     (if participantId' = [] \<or> excludedId = [] then ToastSelectBoth
      else if participantId' = excludedId then ToastCannotExcludeSelf
      else PostExclusion
             [''participantId'' \<mapsto> JString participantId',
              ''excludedParticipantId'' \<mapsto> JString excludedId])"

text \<open>A participant with the given id and nothing else of interest, for examples.\<close>

definition plain_participant :: "string \<Rightarrow> string \<Rightarrow> string option \<Rightarrow> string option \<Rightarrow> participant" where
  "plain_participant i n slack tz =
     \<lparr>p_id = i, name = n, email = n @ ''@example.com'', slackUserId = slack,
      address = ''1 Main Street'', country = None, city = None, zipCode = None, street = None,
      phone = None, wishlist = None, p_notes = None, timezone = tz, timezoneOffset = None\<rparr>"

definition empty_sys :: sys where
  "empty_sys =
     \<lparr>participants = [], events = [], assignments = [], exclusions = [], settings = None,
      envSlackBotToken = Some ''xoxb-token'', slackContacts = [], sessions = [], outbox = []\<rparr>"


section \<open>Strings\<close>

text \<open>
  Strings are lists of characters; a character of the model stands for one UTF-16 code
  unit of the source, so \<open>length\<close> is the source's \<open>.length\<close>. The model of the
  string functions is exact for ASCII text. Case mapping is that of the ASCII letters and
  every other character is left as it is, where \<open>toUpperCase\<close> and \<open>toLowerCase\<close> of
  the source also map the letters beyond ASCII (and may change the length); \<open>trim\<close>
  strips the ASCII white space, where the source's also strips the Unicode spaces. The
  words the source tests a message against are ASCII, and no property below depends on
  the value of a case mapping or of \<open>trim\<close> beyond ASCII.
\<close>

definition toLowerChar :: "char \<Rightarrow> char" where
  "toLowerChar c =
     (case map_of (zip ''ABCDEFGHIJKLMNOPQRSTUVWXYZ'' ''abcdefghijklmnopqrstuvwxyz'') c of
        Some d \<Rightarrow> d | None \<Rightarrow> c)"

definition toUpperChar :: "char \<Rightarrow> char" where
  "toUpperChar c =
     (case map_of (zip ''abcdefghijklmnopqrstuvwxyz'' ''ABCDEFGHIJKLMNOPQRSTUVWXYZ'') c of
        Some d \<Rightarrow> d | None \<Rightarrow> c)"

definition toLowerCase :: "string \<Rightarrow> string" where
  "toLowerCase s = map toLowerChar s"

definition toUpperCase :: "string \<Rightarrow> string" where
  "toUpperCase s = map toUpperChar s"

definition isWhiteSpace :: "char \<Rightarrow> bool" where
  "isWhiteSpace c = (c \<in> set [CHR '' '', CHR 0x09, CHR 0x0A, CHR 0x0B, CHR 0x0C, CHR 0x0D])"

definition trim :: "string \<Rightarrow> string" where
  "trim s = rev (dropWhile isWhiteSpace (rev (dropWhile isWhiteSpace s)))"

text \<open>\<open>s.includes(sub)\<close>: \<open>sub\<close> occurs in \<open>s\<close> as a contiguous piece.\<close>

definition startsWith :: "string \<Rightarrow> string \<Rightarrow> bool" where
  "startsWith s sub = (take (length sub) s = sub)"

fun includes_str :: "string \<Rightarrow> string \<Rightarrow> bool" where
  "includes_str [] sub = (sub = [])"
| "includes_str (c # cs) sub = (startsWith (c # cs) sub \<or> includes_str cs sub)"

text \<open>\<open>s.split(" ")\<close> and \<open>words.join(" ")\<close>.\<close>

fun split_space :: "string \<Rightarrow> string list" where
  "split_space [] = [[]]"
| "split_space (c # cs) =
     (if c = CHR '' '' then [] # split_space cs
      else (case split_space cs of
              w # ws \<Rightarrow> (c # w) # ws
            | [] \<Rightarrow> [[c]]))"

fun join_space :: "string list \<Rightarrow> string" where
  "join_space [] = []"
| "join_space [w] = w"
| "join_space (w # ws) = w @ '' '' @ join_space ws"

text \<open>\<open>w.charAt(0).toUpperCase() + w.slice(1)\<close>\<close>

fun capitalize :: "string \<Rightarrow> string" where
  "capitalize [] = []"
| "capitalize (c # cs) = toUpperChar c # cs"

definition titleCase :: "string \<Rightarrow> string" where
  "titleCase s = join_space (map capitalize (split_space s))"

definition isDigit :: "char \<Rightarrow> bool" where
  "isDigit c = (c \<in> set ''0123456789'')"


text \<open>A \<open>string | null\<close> inside a template literal.\<close>

fun templated :: "string option \<Rightarrow> string" where
  "templated None = ''null''"
| "templated (Some s) = s"

text \<open>\<open>a || b\<close> on strings.\<close>

definition orElse :: "string option \<Rightarrow> string \<Rightarrow> string" where
  "orElse a b = (if truthy a then the a else b)"


section \<open>Reminder times (server/routes.ts, getNext10AMInTimezone, getFirstReminderDate)\<close>

text \<open>
  Modelled from the spec: the timezone service (the functions \<open>toZonedTime\<close> and
  \<open>fromZonedTime\<close> of the library \<open>date-fns-tz\<close>) and the date arithmetic of the
  library \<open>date-fns\<close> are not code of the repository. The spec asks of the service
  \<open>zonedTime(instant, ianaZone) -> localInstant\<close> and its inverse, and that it signal
  failure distinctly for unknown zones. The time zones are a parameter: a database from
  zone names to zones, where a zone gives the offset from UTC (in milliseconds) that is
  in force at a UTC instant, and the offset under which a wall-clock reading is to be
  read. The dates the libraries compute with are those of a server whose own zone is UTC
  (a day is 86400000 ms, and \<open>setHours\<close> and its companions work on the UTC fields):
  \<^item> \<open>toZonedTime(date, tz)\<close> is the date whose fields show the wall clock of \<open>tz\<close> at
    \<open>date\<close>;
  \<^item> \<open>fromZonedTime(date, tz)\<close> is the instant at which the wall clock of \<open>tz\<close> shows
    the fields of \<open>date\<close>;
  \<^item> for a name that is not in the database the conversion throws, which is what the
    \<open>try\<close>/\<open>catch\<close> of the source is written for.
\<close>

record zone =
  utc_offset :: "int \<Rightarrow> int"
  wall_offset :: "int \<Rightarrow> int"

type_synonym tzdb = "string \<Rightarrow> zone option"

definition DEFAULT_TIMEZONE :: string where
  "DEFAULT_TIMEZONE = ''Europe/Riga''"

definition REMINDER_HOUR :: int where
  "REMINDER_HOUR = 10"

definition msPerDay :: int where
  "msPerDay = 86400000"

definition msPerHour :: int where
  "msPerHour = 3600000"

definition toZonedTime :: "tzdb \<Rightarrow> int \<Rightarrow> string \<Rightarrow> int option" where
  "toZonedTime db date tz = (case db tz of None \<Rightarrow> None | Some z \<Rightarrow> Some (date + utc_offset z date))"

definition fromZonedTime :: "tzdb \<Rightarrow> int \<Rightarrow> string \<Rightarrow> int option" where
  "fromZonedTime db date tz = (case db tz of None \<Rightarrow> None | Some z \<Rightarrow> Some (date - wall_offset z date))"

definition addDays :: "int \<Rightarrow> int \<Rightarrow> int" where
  "addDays date n = date + n * msPerDay"

text \<open>\<open>setMilliseconds(setSeconds(setMinutes(setHours(d, REMINDER_HOUR), 0), 0), 0)\<close>\<close>

definition atReminderHour :: "int \<Rightarrow> int" where
  "atReminderHour d = (d div msPerDay) * msPerDay + REMINDER_HOUR * msPerHour"

definition getNext10AMInTimezone :: "tzdb \<Rightarrow> string option \<Rightarrow> int \<Rightarrow> int" where
  "getNext10AMInTimezone db timezone' fromDate =
     (let tz = orElse timezone' DEFAULT_TIMEZONE in
      case toZonedTime db fromDate tz of
        None \<Rightarrow> addDays fromDate 1
      | Some zonedTime \<Rightarrow>
          (let target0 = atReminderHour zonedTime;
               target = (if target0 < zonedTime then addDays target0 1 else target0)
           in case fromZonedTime db target tz of
                None \<Rightarrow> addDays fromDate 1
              | Some result \<Rightarrow> result))"

definition getFirstReminderDate :: "tzdb \<Rightarrow> string option \<Rightarrow> int \<Rightarrow> int" where
  "getFirstReminderDate db timezone' notificationDate =
     (let tz = orElse timezone' DEFAULT_TIMEZONE;
          sevenDaysLater = addDays notificationDate 7
      in case toZonedTime db sevenDaysLater tz of
           None \<Rightarrow> addDays notificationDate 7
         | Some zonedTime \<Rightarrow>
             (case fromZonedTime db (atReminderHour zonedTime) tz of
                None \<Rightarrow> addDays notificationDate 7
              | Some result \<Rightarrow> result))"

section \<open>Reminder sweep (server/routes.ts, sendGiftReminders)\<close>

record reminder_counts =
  sent :: nat
  failed :: nat
  skipped :: nat

text \<open>
  The body of the loop over the rows that \<open>getAssignmentsNeedingReminder\<close> returned
  (\<open>reminderStep\<close>, for one row \<open>a\<close> of that snapshot), and the loop. \<open>now\<close> is the
  \<open>new Date()\<close> taken before the loop; the \<open>new Date()\<close> that
  \<open>updateAssignmentReminderSent\<close> stores as \<open>lastReminderAt\<close> is taken at the same
  clock reading. The request to \<open>chat.postMessage\<close> is recorded in the outbox whether
  it succeeds or not.
\<close>

definition reminderStep ::
    "tzdb \<Rightarrow> int \<Rightarrow> assignment \<Rightarrow> reminder_counts \<times> sys \<times> network
      \<Rightarrow> reminder_counts \<times> sys \<times> network"
where
  "reminderStep db now a acc =
     (case acc of (c, st, w) \<Rightarrow>
      if notifiedAt a = None \<or> \<not> truthy (slackUserId (giver a))
      then (c\<lparr>skipped := skipped c + 1\<rparr>, st, w)
      else
        (case nextReminderAt a of
           None \<Rightarrow>
             (let firstReminderDate =
                    getFirstReminderDate db (timezone (giver a)) (the (notifiedAt a));
                  next = (if firstReminderDate < now
                          then getNext10AMInTimezone db (timezone (giver a)) now
                          else firstReminderDate)
              in (c\<lparr>skipped := skipped c + 1\<rparr>,
                  updateAssignmentNextReminder (a_id a) next st, w))
         | Some next \<Rightarrow>
             if now < next
             then (c\<lparr>skipped := skipped c + 1\<rparr>, st, w)
             else
               (let st1 = postMessage (the (slackUserId (giver a)))
                            (GiftReminder (lastReminderAt a = None) (name (giver a))
                               (name (receiver a))) st
                in case fetch w of
                     (FetchThrows, w1) \<Rightarrow> (c\<lparr>failed := failed c + 1\<rparr>, st1, w1)
                   | (FetchReturns r, w1) \<Rightarrow>
                       if ok r
                       then (c\<lparr>sent := sent c + 1\<rparr>,
                             updateAssignmentReminderSent now (a_id a)
                               (getNext10AMInTimezone db (timezone (giver a)) now) st1,
                             w1)
                       else (c\<lparr>failed := failed c + 1\<rparr>, st1, w1))))"

fun reminderLoop ::
    "tzdb \<Rightarrow> int \<Rightarrow> assignment list \<Rightarrow> reminder_counts \<times> sys \<times> network
      \<Rightarrow> reminder_counts \<times> sys \<times> network"
where
  "reminderLoop db now [] acc = acc"
| "reminderLoop db now (a # rest) acc = reminderLoop db now rest (reminderStep db now a acc)"

definition sendGiftReminders ::
    "tzdb \<Rightarrow> int \<Rightarrow> network \<Rightarrow> sys \<Rightarrow> reminder_counts \<times> sys \<times> network"
where
  "sendGiftReminders db now w st =
     (case getSlackToken st of
        None \<Rightarrow> (\<lparr>sent = 0, failed = 0, skipped = 0\<rparr>, st, w)
      | Some slackToken \<Rightarrow>
          reminderLoop db now (getAssignmentsNeedingReminder st)
            (\<lparr>sent = 0, failed = 0, skipped = 0\<rparr>, st, w))"

text \<open>
  A database of zones for examples: zones with a fixed offset, Riga at its winter offset
  of two hours (EET). The examples that use Riga are dated in winter: day 20070 of the
  epoch is 13 December 2024, day 20077 is 20 December 2024. The example in UTC is dated
  on day 20000, 4 October 2024.
\<close>

definition fixed_zone :: "int \<Rightarrow> zone" where
  "fixed_zone off = \<lparr>utc_offset = (\<lambda>t. off), wall_offset = (\<lambda>t. off)\<rparr>"

definition example_tzdb :: tzdb where
  "example_tzdb tz =
     (if tz = ''Europe/Riga'' then Some (fixed_zone 7200000)
      else if tz = ''UTC'' then Some (fixed_zone 0)
      else None)"

definition ten_oclock :: int where
  "ten_oclock = 20000 * 86400000 + 10 * 3600000"

definition due_example :: sys where
  "due_example =
     empty_sys\<lparr>assignments :=
       [\<lparr>a_id = ''a1'', eventId = ''ev'',
          giver = plain_participant ''p1'' ''Ann'' (Some ''U1'') (Some ''UTC''),
          receiver = plain_participant ''p2'' ''Bob'' (Some ''U2'') None,
          notified = True, notifiedAt = Some (ten_oclock - 8 * 86400000),
          giftSent = False, giftSentAt = None, lastReminderAt = None,
          nextReminderAt = Some ten_oclock, receiverNotified = False\<rparr>]\<rparr>"







section \<open>Notification sweep (server/routes.ts, sendSlackNotification, sendAllNotifications)\<close>



















section \<open>Gift confirmation (server/routes.ts, handleGiftConfirmation)\<close>

definition isYes :: "string \<Rightarrow> bool" where
  "isYes lowerText =
     (lowerText = ''yes'' \<or> lowerText = ''y'' \<or> includes_str lowerText ''sent''
        \<or> includes_str lowerText ''done'')"

definition isNo :: "string \<Rightarrow> bool" where
  "isNo lowerText =
     (lowerText = ''no'' \<or> lowerText = ''n'' \<or> includes_str lowerText ''not yet'')"

text \<open>The assignment the handler looks for: the reminder was sent, the gift is not.\<close>

definition eligible :: "string \<Rightarrow> assignment \<Rightarrow> bool" where
  "eligible slackUserId' a =
     (slackUserId (giver a) = Some slackUserId' \<and> notified a \<and> \<not> giftSent a
        \<and> lastReminderAt a \<noteq> None)"

text \<open>
  The handler returns \<open>handled\<close>, or throws where a \<open>fetch\<close> throws; what it did to the
  state before that stays done. A reply to \<open>chat.postMessage\<close> is not read here.
\<close>

definition handleGiftConfirmation ::
    "int \<Rightarrow> string \<Rightarrow> string \<Rightarrow> network \<Rightarrow> sys \<Rightarrow> bool outcome \<times> sys \<times> network"
where
  "handleGiftConfirmation now slackUserId' lowerText w st =
     (case find (eligible slackUserId') (assignments st) of
        None \<Rightarrow> (Returned False, st, w)
      | Some userAssignment \<Rightarrow>
          if \<not> isYes lowerText \<and> \<not> isNo lowerText then (Returned False, st, w)
          else if isYes lowerText then
            (let st1 = updateAssignmentGiftStatus now (a_id userAssignment) True st in
             if truthy (slackUserId (receiver userAssignment))
                  \<and> \<not> receiverNotified userAssignment
             then
               (case fetch w of
                  (FetchThrows, w1) \<Rightarrow>
                    (Thrown,
                     postMessage (the (slackUserId (receiver userAssignment))) GiftOnItsWay st1,
                     w1)
                | (FetchReturns r1, w1) \<Rightarrow>
                    (let st2 = updateAssignmentReceiverNotified (a_id userAssignment)
                                 (postMessage (the (slackUserId (receiver userAssignment)))
                                    GiftOnItsWay st1)
                     in case fetch w1 of
                          (FetchThrows, w2) \<Rightarrow>
                            (Thrown,
                             postMessage slackUserId'
                               (ThankYouForConfirming (name (receiver userAssignment))) st2,
                             w2)
                        | (FetchReturns r2, w2) \<Rightarrow>
                            (Returned True,
                             postMessage slackUserId'
                               (ThankYouForConfirming (name (receiver userAssignment))) st2,
                             w2)))
             else
               (case fetch w of
                  (FetchThrows, w1) \<Rightarrow>
                    (Thrown,
                     postMessage slackUserId'
                       (ThankYouForConfirming (name (receiver userAssignment))) st1,
                     w1)
                | (FetchReturns r1, w1) \<Rightarrow>
                    (Returned True,
                     postMessage slackUserId'
                       (ThankYouForConfirming (name (receiver userAssignment))) st1,
                     w1)))
          else
            (case fetch w of
               (FetchThrows, w1) \<Rightarrow>
                 (Thrown,
                  postMessage slackUserId' (PleaseSendSoon (name (receiver userAssignment))) st,
                  w1)
             | (FetchReturns r1, w1) \<Rightarrow>
                 (Returned True,
                  postMessage slackUserId' (PleaseSendSoon (name (receiver userAssignment))) st,
                  w1)))"

text \<open>The handler called again and again, each call with the network as it is then.\<close>

fun handleGiftConfirmation_repeated ::
    "int \<Rightarrow> string \<Rightarrow> string \<Rightarrow> network list \<Rightarrow> sys \<Rightarrow> sys"
where
  "handleGiftConfirmation_repeated now u lowerText [] st = st"
| "handleGiftConfirmation_repeated now u lowerText (w # ws) st =
     handleGiftConfirmation_repeated now u lowerText ws
       (fst (snd (handleGiftConfirmation now u lowerText w st)))"

definition receiverNotices :: "sys \<Rightarrow> outbound list" where
  "receiverNotices st = filter (\<lambda>m. body m = GiftOnItsWay) (outbox st)"

text \<open>
  What marking the assignment with id \<open>i\<close> as sent at \<open>now\<close> does to a row: a row
  with that id has \<open>giftSent\<close> and \<open>giftSentAt = now\<close>, every other row is as it was.
\<close>

definition marked_sent :: "int \<Rightarrow> string \<Rightarrow> assignment \<Rightarrow> assignment \<Rightarrow> bool" where
  "marked_sent now i a a' =
     (a_id a' = a_id a \<and>
      (if a_id a = i then giftSent a' \<and> giftSentAt a' = Some now else a' = a))"

definition isEncouragement :: "outbound \<Rightarrow> bool" where
  "isEncouragement m = (case body m of PleaseSendSoon n \<Rightarrow> True | _ \<Rightarrow> False)"

text \<open>An assignment whose giver has been notified and reminded, for examples.\<close>

definition reminded_assignment ::
    "string \<Rightarrow> participant \<Rightarrow> participant \<Rightarrow> int \<Rightarrow> int \<Rightarrow> assignment"
where
  "reminded_assignment i g rc t1 t2 =
     \<lparr>a_id = i, eventId = ''ev'', giver = g, receiver = rc, notified = True,
      notifiedAt = Some t1, giftSent = False, giftSentAt = None, lastReminderAt = Some t2,
      nextReminderAt = Some (t2 + 86400000), receiverNotified = False\<rparr>"

definition all_ok :: network where
  "all_ok = (\<lambda>k. FetchReturns \<lparr>ok = True, hasUser = False, user_id = [], user_tz = None,
                                user_tz_offset = None\<rparr>)"


definition confirm_example :: sys where
  "confirm_example =
     empty_sys\<lparr>assignments :=
       [reminded_assignment ''a1'' (plain_participant ''p1'' ''Ann'' (Some ''U1'') None)
          (plain_participant ''p2'' ''Bob'' (Some ''U2'') None) 0 100]\<rparr>"

definition confirm_example_no_slack :: sys where
  "confirm_example_no_slack =
     empty_sys\<lparr>assignments :=
       [reminded_assignment ''a1'' (plain_participant ''p1'' ''Ann'' (Some ''U1'') None)
          (plain_participant ''p2'' ''Bob'' None None) 0 100]\<rparr>"


section \<open>Onboarding conversation (server/routes.ts, processSlackMessage)\<close>

definition getOnboardingSession :: "string \<Rightarrow> sys \<Rightarrow> onboardingSession option" where
  "getOnboardingSession u st = find (\<lambda>s. s_slackUserId s = u) (sessions st)"

definition getSlackContactByUserId :: "string \<Rightarrow> sys \<Rightarrow> slackContact option" where
  "getSlackContactByUserId u st = find (\<lambda>c. c_slackUserId c = u) (slackContacts st)"

definition updateSlackContact :: "string \<Rightarrow> (slackContact \<Rightarrow> slackContact) \<Rightarrow> sys \<Rightarrow> sys" where
  "updateSlackContact i f st =
     st\<lparr>slackContacts := updateWhere (\<lambda>c. c_id c = i) f (slackContacts st)\<rparr>"

definition updateOnboardingSession ::
    "int \<Rightarrow> string \<Rightarrow> (onboardingSession \<Rightarrow> onboardingSession) \<Rightarrow> sys \<Rightarrow> sys"
where
  "updateOnboardingSession now i f st =
     st\<lparr>sessions := updateWhere (\<lambda>s. s_id s = i)
            (\<lambda>s. (f s)\<lparr>lastInteractionAt := Some now\<rparr>) (sessions st)\<rparr>"

definition createParticipant :: "participant \<Rightarrow> sys \<Rightarrow> sys" where
  "createParticipant p st = st\<lparr>participants := participants st @ [p]\<rparr>"

text \<open>
  One step of the \<open>switch\<close> on the session's state. \<open>None\<close> is the \<open>return\<close> of the
  finished states; otherwise the step gives the message to send, the new state, the
  fields to update, and the state and network after the step's own effects.
  \<open>newId\<close> is the id the database gives the participant created at the end.
\<close>

definition onboardingStep ::
    "int \<Rightarrow> string \<Rightarrow> string \<Rightarrow> string \<Rightarrow> onboardingSession \<Rightarrow> slackContact \<Rightarrow> network \<Rightarrow> sys
      \<Rightarrow> (prompt \<times> onboarding_state \<times> (onboardingSession \<Rightarrow> onboardingSession) \<times> sys \<times> network) option"
where
  "onboardingStep now newId messageText lowerText session contact w st =
     (case conversationState session of
        AwaitingConsent \<Rightarrow>
          if includes_str lowerText ''yes'' \<or> includes_str lowerText ''yeah''
               \<or> includes_str lowerText ''sure'' \<or> includes_str lowerText ''ok''
          then Some (WelcomeAskName, CollectingName, (\<lambda>s. s),
                     updateSlackContact (c_id contact) (\<lambda>c. c\<lparr>status := StatusInProgress\<rparr>) st, w)
          else if includes_str lowerText ''no'' \<or> includes_str lowerText ''nope''
               \<or> includes_str lowerText ''decline''
          then Some (NoProblemDeclined, Declined, (\<lambda>s. s),
                     updateSlackContact (c_id contact)
                       (\<lambda>c. c\<lparr>status := StatusDeclined, respondedAt := Some now\<rparr>) st, w)
          else Some (PleaseReplyYesOrNo, AwaitingConsent, (\<lambda>s. s), st, w)
      | CollectingName \<Rightarrow>
          if length messageText \<ge> 2 \<and> length messageText \<le> 100
          then Some (ThanksAskCountry (titleCase messageText), CollectingCountry,
                     (\<lambda>s. s\<lparr>collectedName := Some (titleCase messageText)\<rparr>), st, w)
          else Some (PleaseEnterName, CollectingName, (\<lambda>s. s), st, w)
      | CollectingCountry \<Rightarrow>
          if length messageText \<ge> 2
          then Some (AskCity, CollectingCity,
                     (\<lambda>s. s\<lparr>collectedCountry := Some (titleCase messageText)\<rparr>), st, w)
          else Some (PleaseEnterCountry, CollectingCountry, (\<lambda>s. s), st, w)
      | CollectingCity \<Rightarrow>
          if length messageText \<ge> 2
          then Some (AskZip, CollectingZip,
                     (\<lambda>s. s\<lparr>collectedCity := Some (titleCase messageText)\<rparr>), st, w)
          else Some (PleaseEnterCity, CollectingCity, (\<lambda>s. s), st, w)
      | CollectingZip \<Rightarrow>
          if length messageText \<ge> 3
          then Some (AskStreet, CollectingStreet,
                     (\<lambda>s. s\<lparr>collectedZip := Some (toUpperCase messageText)\<rparr>), st, w)
          else Some (PleaseEnterZip, CollectingZip, (\<lambda>s. s), st, w)
      | CollectingStreet \<Rightarrow>
          if length messageText \<ge> 5
          then Some (AskPhone, CollectingPhone,
                     (\<lambda>s. s\<lparr>collectedStreet := Some messageText\<rparr>), st, w)
          else Some (PleaseEnterStreet, CollectingStreet, (\<lambda>s. s), st, w)
      | CollectingPhone \<Rightarrow>
          if length (filter isDigit messageText) \<ge> 7
          then Some (AskNotes, CollectingNotes,
                     (\<lambda>s. s\<lparr>collectedPhone := Some messageText\<rparr>), st, w)
          else Some (PleaseEnterPhone, CollectingPhone, (\<lambda>s. s), st, w)
      | CollectingNotes \<Rightarrow>
          (let isSkip = (lowerText = ''skip'' \<or> lowerText = ''none'' \<or> lowerText = ''n/a'');
               updates = (if \<not> isSkip \<and> length messageText > 0
                          then (\<lambda>s. s\<lparr>collectedNotes := Some messageText\<rparr>) else (\<lambda>s. s));
               fullAddress = templated (collectedStreet session) @ '', ''
                             @ templated (collectedCity session) @ '', ''
                             @ templated (collectedZip session) @ '', ''
                             @ templated (collectedCountry session);
               collectedNotes' = (if isSkip then None
                                  else if length messageText > 0 then Some messageText else None);
               info = (case getSlackToken st of
                         None \<Rightarrow> ((None, None), w)
                       | Some tok \<Rightarrow>
                           (case fetch w of
                              (FetchThrows, w1) \<Rightarrow> ((None, None), w1)
                            | (FetchReturns r, w1) \<Rightarrow>
                                if ok r \<and> hasUser r then ((user_tz r, user_tz_offset r), w1)
                                else ((None, None), w1)));
               st1 = createParticipant
                       \<lparr>p_id = newId,
                        name = orElse (collectedName session) (displayName contact),
                        email = orElse (c_email contact) (slackUsername contact @ ''@slack.local''),
                        slackUserId = Some (c_slackUserId contact),
                        address = fullAddress,
                        country = collectedCountry session,
                        city = collectedCity session,
                        zipCode = collectedZip session,
                        street = collectedStreet session,
                        phone = Some (orElse (collectedPhone session) ''''),
                        wishlist = None,
                        p_notes = collectedNotes',
                        timezone = fst (fst info),
                        timezoneOffset = snd (fst info)\<rparr> st;
               st2 = updateSlackContact (c_id contact)
                       (\<lambda>c. c\<lparr>status := StatusCompleted, respondedAt := Some now\<rparr>) st1
           in Some (AllSet collectedNotes' (getAdminContactMention st2), Completed, updates,
                    st2, snd info))
      | Completed \<Rightarrow> None
      | Declined \<Rightarrow> None
      | Invited \<Rightarrow> None)"

text \<open>
  \<open>processSlackMessage\<close> in two parts: the gift confirmation comes first, and only a
  message it did not handle is dispatched to the onboarding conversation
  (\<open>onboardingDispatch\<close>, the function's second half).
\<close>

definition onboardingDispatch ::
    "int \<Rightarrow> string \<Rightarrow> string \<Rightarrow> string \<Rightarrow> network \<Rightarrow> sys \<Rightarrow> unit outcome \<times> sys \<times> network"
where
  "onboardingDispatch now newId slackUserId' messageText w1 st1 =
     (case getOnboardingSession slackUserId' st1 of
        None \<Rightarrow> (Returned (), st1, w1)
      | Some session \<Rightarrow>
          (case getSlackContactByUserId slackUserId' st1 of
             None \<Rightarrow> (Returned (), st1, w1)
           | Some contact \<Rightarrow>
               (case onboardingStep now newId messageText (trim (toLowerCase messageText))
                       session contact w1 st1 of
                  None \<Rightarrow> (Returned (), st1, w1)
                | Some (responseMessage, newState, updates, st2, w2) \<Rightarrow>
                    (let st3 = updateOnboardingSession now (s_id session)
                                 (\<lambda>s. updates (s\<lparr>conversationState := newState\<rparr>)) st2;
                         st4 = postMessage slackUserId' (OnboardingPrompt responseMessage) st3
                     in case fetch w2 of
                          (FetchThrows, w3) \<Rightarrow> (Thrown, st4, w3)
                        | (FetchReturns r, w3) \<Rightarrow> (Returned (), st4, w3)))))"

definition processSlackMessage ::
    "int \<Rightarrow> string \<Rightarrow> string \<Rightarrow> string \<Rightarrow> network \<Rightarrow> sys \<Rightarrow> unit outcome \<times> sys \<times> network"
where
  "processSlackMessage now newId slackUserId' messageText w st =
     (case getSlackToken st of
        None \<Rightarrow> (Returned (), st, w)
      | Some slackToken \<Rightarrow>
          (case handleGiftConfirmation now slackUserId' (trim (toLowerCase messageText)) w st of
             (Thrown, st1, w1) \<Rightarrow> (Thrown, st1, w1)
           | (Returned True, st1, w1) \<Rightarrow> (Returned (), st1, w1)
           | (Returned False, st1, w1) \<Rightarrow>
               onboardingDispatch now newId slackUserId' messageText w1 st1))"


text \<open>The fields of a session that have been collected, and the order of the states.\<close>

datatype field = FName | FCountry | FCity | FZip | FStreet | FPhone | FNotes

definition collectedFields :: "onboardingSession \<Rightarrow> field set" where
  "collectedFields s =
     (if collectedName s \<noteq> None then {FName} else {}) \<union>
     (if collectedCountry s \<noteq> None then {FCountry} else {}) \<union>
     (if collectedCity s \<noteq> None then {FCity} else {}) \<union>
     (if collectedZip s \<noteq> None then {FZip} else {}) \<union>
     (if collectedStreet s \<noteq> None then {FStreet} else {}) \<union>
     (if collectedPhone s \<noteq> None then {FPhone} else {}) \<union>
     (if collectedNotes s \<noteq> None then {FNotes} else {})"












section \<open>Matching engine: properties\<close>

lemma shuffle_loop_mset:
  "k < length xs \<or> k = 0 \<Longrightarrow> mset (fst (shuffle_loop k xs r)) = mset xs"
proof (induction k arbitrary: xs r)
  case 0
  then show ?case by simp
next
  case (Suc k)
  obtain j r' where jr: "random_index (Suc k + 1) r = (j, r')" by (cases "random_index (Suc k + 1) r")
  from Suc.prems have lt: "Suc k < length xs" by simp
  from jr have "j < Suc k + 1" by (auto simp: random_index_def)
  with lt have jl: "j < length xs" by simp
  have sw: "mset (xs[Suc k := xs ! j, j := xs ! Suc k]) = mset xs"
    using mset_swap [OF jl lt] by simp
  have "k < length (xs[Suc k := xs ! j, j := xs ! Suc k])" using lt by simp
  from Suc.IH [OF disjI1 [OF this]] sw jr show ?case by simp
qed

lemma shuffle_mset: "mset (fst (shuffle xs r)) = mset xs"
  unfolding shuffle_def by (rule shuffle_loop_mset) (cases xs; simp)

lemma isValidAssignment_sound:
  "isValidAssignment (exclusionSet ex) g x \<Longrightarrow> g \<noteq> x \<and> (g, x) \<notin> set ex"
  by (auto simp: isValidAssignment_def exclusionSet_def split: if_splits)

lemma findAssignment_sound:
  "findAssignment es givers receivers current r = (Some res, r0)
     \<Longrightarrow> extends_ok es givers receivers current res"
  "tryReceivers es gv gs receivers rest current r = (Some res, r0)
     \<Longrightarrow> set rest \<subseteq> set receivers
     \<Longrightarrow> extends_ok es (gv # gs) receivers current res"
proof (induction es givers receivers current r and es gv gs receivers rest current r
        arbitrary: res r0 and res r0 rule: findAssignment_tryReceivers.induct)
  case (1 es receivers current r)
  then show ?case by (simp add: extends_ok_def)
next
  case (2 es gv gs receivers current r)
  obtain sh r' where sh: "shuffle receivers r = (sh, r')" by (cases "shuffle receivers r")
  have "set sh = set receivers" using shuffle_mset [of receivers r] sh by (metis fst_conv mset_eq_setD)
  with 2 sh show ?case by simp
next
  case (3 es gv gs receivers current r)
  then show ?case by simp
next
  case (4 es gv gs receivers rc rest current r)
  show ?case
  proof (cases "isValidAssignment es gv rc")
    case False
    with 4 show ?thesis by simp
  next
    case True
    obtain o1 r1 where rec: "findAssignment es gs (filter (\<lambda>x. x \<noteq> rc) receivers)
                (current @ [(gv, rc)]) r = (o1, r1)" by (cases "findAssignment es gs (filter (\<lambda>x. x \<noteq> rc) receivers)
                (current @ [(gv, rc)]) r")
    show ?thesis
    proof (cases o1)
      case None
      with 4 True rec show ?thesis by simp
    next
      case (Some m)
      with "4.prems" True rec have eq: "m = res" by simp
      from "4.IH"(1) [OF True] rec Some eq
      have "extends_ok es gs (filter (\<lambda>x. x \<noteq> rc) receivers) (current @ [(gv, rc)]) res"
        by simp
      then obtain ext where e: "res = (current @ [(gv, rc)]) @ ext" "map fst ext = gs"
        "distinct (map snd ext)" "set (map snd ext) \<subseteq> set (filter (\<lambda>x. x \<noteq> rc) receivers)"
        "\<forall>(g, x) \<in> set ext. isValidAssignment es g x"
        unfolding extends_ok_def by blast
      have "rc \<in> set receivers" using "4.prems"(2) by simp
      with e True show ?thesis
        unfolding extends_ok_def
        by (intro exI [of _ "(gv, rc) # ext"]) auto
    qed
  qed
qed

lemma attemptLoop_sound:
  "attemptLoop attempt es ids r = (Some res, k, r0)
     \<Longrightarrow> \<exists>sg sr. mset sg = mset ids \<and> mset sr = mset ids \<and> extends_ok es sg sr [] res"
proof (induction attempt es ids r rule: attemptLoop.induct)
  case (1 attempt es ids r)
  obtain sg r1 where sg: "shuffle ids r = (sg, r1)" by (cases "shuffle ids r")
  obtain sr r2 where sr: "shuffle ids r1 = (sr, r2)" by (cases "shuffle ids r1")
  obtain o3 r3 where fa: "findAssignment es sg sr [] r2 = (o3, r3)"
    by (cases "findAssignment es sg sr [] r2")
  have lt: "attempt < 100" using "1.prems" by (subst (asm) attemptLoop.simps) (simp split: if_splits)
  have msg: "mset sg = mset ids" using shuffle_mset [of ids r] sg by simp
  have msr: "mset sr = mset ids" using shuffle_mset [of ids r1] sr by simp
  show ?case
  proof (cases o3)
    case None
    have "attemptLoop (attempt + 1) es ids r3 = (Some res, k, r0)"
      using "1.prems" lt sg sr fa None by (subst (asm) attemptLoop.simps) simp
    from "1.IH" [OF lt sg [symmetric] sr [symmetric] fa [symmetric] None this]
    show ?thesis .
  next
    case (Some m)
    have "m = res" using "1.prems" lt sg sr fa Some by (subst (asm) attemptLoop.simps) simp
    with fa Some have "extends_ok es sg sr [] res" using findAssignment_sound(1) by simp
    with msg msr show ?thesis by blast
  qed
qed

lemma attemptLoop_count:
  "attempt \<le> 100 \<Longrightarrow>
     fst (snd (attemptLoop attempt es ids r)) \<le> 100 \<and>
     (fst (attemptLoop attempt es ids r) = None \<longrightarrow> fst (snd (attemptLoop attempt es ids r)) = 100)"
proof (induction attempt es ids r rule: attemptLoop.induct)
  case (1 attempt es ids r)
  show ?case
  proof (cases "attempt < 100")
    case False
    with "1.prems" show ?thesis by (subst (1 2 3) attemptLoop.simps) simp
  next
    case lt: True
    obtain sg r1 where sg: "shuffle ids r = (sg, r1)" by (cases "shuffle ids r")
    obtain sr r2 where sr: "shuffle ids r1 = (sr, r2)" by (cases "shuffle ids r1")
    obtain o3 r3 where fa: "findAssignment es sg sr [] r2 = (o3, r3)"
      by (cases "findAssignment es sg sr [] r2")
    show ?thesis
    proof (cases o3)
      case None
      have le: "attempt + 1 \<le> 100" using lt by simp
      have eq: "attemptLoop attempt es ids r = attemptLoop (attempt + 1) es ids r3"
        using lt sg sr fa None by (subst attemptLoop.simps) simp
      from "1.IH" [OF lt sg [symmetric] sr [symmetric] fa [symmetric] None le]
      show ?thesis unfolding eq .
    next
      case (Some m)
      have "attemptLoop attempt es ids r = (Some m, attempt, r3)"
        using lt sg sr fa Some by (subst attemptLoop.simps) simp
      with lt show ?thesis by simp
    qed
  qed
qed

lemma generateMatching_sound:
  assumes "generateMatching ids ex r = Some res"
  shows "mset (map fst res) = mset ids \<and> mset (map snd res) = mset ids \<and> distinct ids
          \<and> (\<forall>(g, x) \<in> set res. g \<noteq> x \<and> (g, x) \<notin> set ex)"
proof -
  from assms obtain k r0 where al: "attemptLoop 0 (exclusionSet ex) ids r = (Some res, k, r0)"
    unfolding generateMatching_def generateMatching_run_def
    by (cases "attemptLoop 0 (exclusionSet ex) ids r") (auto split: if_splits)
  from attemptLoop_sound [OF al] obtain sg sr where
    sg: "mset sg = mset ids" and sr: "mset sr = mset ids"
    and ok: "extends_ok (exclusionSet ex) sg sr [] res" by blast
  from ok have g: "map fst res = sg" and d: "distinct (map snd res)"
    and sub: "set (map snd res) \<subseteq> set sr"
    and v: "\<forall>(g, x) \<in> set res. isValidAssignment (exclusionSet ex) g x"
    unfolding extends_ok_def by auto
  have mg: "mset (map fst res) = mset ids" using g sg by simp
  have len: "length res = length ids" using mg by (metis length_map size_mset)
  have seq: "set sr = set ids" using sr by (rule mset_eq_setD)
  have "card (set (map snd res)) = length ids" using distinct_card [OF d] len by simp
  moreover have "card (set (map snd res)) \<le> card (set ids)"
    using sub seq by (simp add: card_mono)
  moreover have "card (set ids) \<le> length ids" by (rule card_length)
  ultimately have c: "card (set ids) = length ids" and c2: "card (set (map snd res)) = card (set ids)"
    by simp_all
  have di: "distinct ids" using c by (rule card_distinct)
  have "set (map snd res) = set ids" using sub seq c2 by (simp add: card_subset_eq)
  then have mr: "mset (map snd res) = mset ids"
    using set_eq_iff_mset_eq_distinct [OF d di] by blast
  from v have "\<forall>(g, x) \<in> set res. g \<noteq> x \<and> (g, x) \<notin> set ex"
    using isValidAssignment_sound by blast
  with mg mr di show ?thesis by simp
qed

lemma generateMatching_all_excluded:
  assumes "\<forall>g \<in> set ids. \<forall>x \<in> set ids. g \<noteq> x \<longrightarrow> (g, x) \<in> set ex"
  shows "generateMatching ids ex r = None"
proof (cases "generateMatching ids ex r")
  case None
  then show ?thesis .
next
  case (Some res)
  from generateMatching_sound [OF Some] have mg: "mset (map fst res) = mset ids"
    and mr: "mset (map snd res) = mset ids"
    and v: "\<forall>(g, x) \<in> set res. g \<noteq> x \<and> (g, x) \<notin> set ex" by simp_all
  have "2 \<le> length ids" using Some
    unfolding generateMatching_def generateMatching_run_def by (auto split: if_splits)
  moreover have "length res = length ids" using mg by (metis length_map size_mset)
  ultimately obtain p ps where res: "res = p # ps" by (cases res) auto
  obtain g x where p: "p = (g, x)" by (cases p)
  have "g \<in> set (map fst res)" "x \<in> set (map snd res)" using res p by simp_all
  then have "g \<in> set ids" "x \<in> set ids" using mg mr by (metis mset_eq_setD)+
  moreover have "g \<noteq> x" "(g, x) \<notin> set ex" using v res p by auto
  ultimately show ?thesis using assms by blast
qed

text \<open>
  C1. Whenever \<open>generateMatching\<close> returns a result, whatever the random source drew:
  the givers of the result are the participant ids, each once; the receivers are the
  participant ids, each once (so the participant list has no duplicate, and the result is a
  bijection on it); no pair gives to itself; and no pair of the result is among the
  exclusion pairs.
\<close>

theorem generateMatching_valid:
  "generateMatching ids ex r = Some res \<Longrightarrow>
     mset (map fst res) = mset ids \<and> mset (map snd res) = mset ids \<and> distinct ids
       \<and> (\<forall>(g, x) \<in> set res. g \<noteq> x \<and> (g, x) \<notin> set ex)"
  by (rule generateMatching_sound)

lemma generateMatching_example:
  "generateMatching [''a'', ''b'', ''c''] [(''a'', ''b'')] zero_rng
     = Some [(''b'', ''a''), (''c'', ''b''), (''a'', ''c'')]"
  unfolding generateMatching_def generateMatching_run_def zero_rng_def
  by (subst attemptLoop.simps)
     (simp add: shuffle_def random_index_def exclusionSet_def exclusionKey_def
        isValidAssignment_def)

theorem generateMatching_valid_witness:
  "generateMatching [''a'', ''b'', ''c''] [(''a'', ''b'')] zero_rng
     = Some [(''b'', ''a''), (''c'', ''b''), (''a'', ''c'')]
   \<and> mset (map fst [(''b'', ''a''), (''c'', ''b''), (''a'', ''c'')]) = mset [''a'', ''b'', ''c'']
   \<and> mset (map snd [(''b'', ''a''), (''c'', ''b''), (''a'', ''c'')]) = mset [''a'', ''b'', ''c'']
   \<and> distinct [''a'', ''b'', ''c'']
   \<and> (''a'', ''c'') \<notin> set [(''a'', ''b'')]"
  using generateMatching_valid [OF generateMatching_example] generateMatching_example
  by simp

text \<open>
  C2. \<open>generateMatching\<close> is a total function of its inputs and of the random source:
  it always returns. The restart loop is left with \<open>attempt\<close> at most 100; when the
  result is null for two or more participants, all 100 attempts were run. When every
  participant excludes every other participant, the result is null.
\<close>

theorem generateMatching_budget:
  "fst (snd (generateMatching_run ids ex r)) \<le> 100
   \<and> (generateMatching ids ex r = None \<and> 2 \<le> length ids
        \<longrightarrow> fst (snd (generateMatching_run ids ex r)) = 100)
   \<and> ((\<forall>g \<in> set ids. \<forall>x \<in> set ids. g \<noteq> x \<longrightarrow> (g, x) \<in> set ex)
        \<longrightarrow> generateMatching ids ex r = None)"
proof -
  have a: "fst (snd (generateMatching_run ids ex r)) \<le> 100"
    using attemptLoop_count [of 0 "exclusionSet ex" ids r]
    by (simp add: generateMatching_run_def)
  have b: "generateMatching ids ex r = None \<and> 2 \<le> length ids
        \<longrightarrow> fst (snd (generateMatching_run ids ex r)) = 100"
    using attemptLoop_count [of 0 "exclusionSet ex" ids r]
    by (simp add: generateMatching_run_def generateMatching_def)
  have c: "(\<forall>g \<in> set ids. \<forall>x \<in> set ids. g \<noteq> x \<longrightarrow> (g, x) \<in> set ex)
        \<longrightarrow> generateMatching ids ex r = None"
    using generateMatching_all_excluded by blast
  from a b c show ?thesis by blast
qed

theorem generateMatching_budget_witness:
  "generateMatching [''a'', ''b''] [(''a'', ''b''), (''b'', ''a'')] zero_rng = None
   \<and> fst (snd (generateMatching_run [''a'', ''b''] [(''a'', ''b''), (''b'', ''a'')] zero_rng)) = 100"
  using generateMatching_budget [of "[''a'', ''b'']" "[(''a'', ''b''), (''b'', ''a'')]" zero_rng]
  by simp

text \<open>
  C8, as the claim states it: the engine would tell "too few participants" from
  "infeasible". It does not: \<open>generateMatching\<close> answers one participant and an
  infeasible pair of participants with the same null.
\<close>

theorem generateMatching_too_few_counterexample:
  "generateMatching [''a''] [] zero_rng
     = generateMatching [''a'', ''b''] [(''a'', ''b''), (''b'', ''a'')] zero_rng"
proof -
  have "generateMatching [''a''] [] zero_rng = None"
    by (simp add: generateMatching_def generateMatching_run_def)
  moreover have "generateMatching [''a'', ''b''] [(''a'', ''b''), (''b'', ''a'')] zero_rng = None"
    by (rule generateMatching_all_excluded) simp
  ultimately show ?thesis by simp
qed

text \<open>
  C8, amended. With fewer than 2 participant ids \<open>generateMatching\<close> returns null at
  once: no attempt is run and no random number is drawn. The distinct condition is the
  route's: with fewer than 3 participants \<open>POST /api/events/match\<close> answers
  "Need at least 3 participants" without calling the engine, and that answer is not the
  "Could not find a valid matching" answer it gives to the engine's null.
\<close>

theorem generateMatching_too_few:
  "(length ids < 2 \<longrightarrow> generateMatching_run ids ex r = (None, 0, r))
   \<and> (length ids < 3 \<longrightarrow> matchRoute ids ex r = NeedAtLeast3Participants)
   \<and> (3 \<le> length ids \<and> generateMatching ids ex r = None
        \<longrightarrow> matchRoute ids ex r = CouldNotFindValidMatching)
   \<and> NeedAtLeast3Participants \<noteq> CouldNotFindValidMatching"
  by (simp add: generateMatching_run_def matchRoute_def)

theorem generateMatching_too_few_witness:
  "generateMatching_run [''a''] [] zero_rng = (None, 0, zero_rng)
   \<and> matchRoute [''a''] [] zero_rng = NeedAtLeast3Participants
   \<and> matchRoute [''a'', ''b'', ''c''] [(''a'', ''b''), (''a'', ''c'')] zero_rng
        = CouldNotFindValidMatching"
proof -
  have n: "generateMatching [''a'', ''b'', ''c''] [(''a'', ''b''), (''a'', ''c'')] zero_rng = None"
  proof (cases "generateMatching [''a'', ''b'', ''c''] [(''a'', ''b''), (''a'', ''c'')] zero_rng")
    case (Some res)
    from generateMatching_sound [OF Some]
    have mg: "mset (map fst res) = mset [''a'', ''b'', ''c'']"
      and mr: "mset (map snd res) = mset [''a'', ''b'', ''c'']"
      and v: "\<forall>(g, x) \<in> set res. g \<noteq> x \<and> (g, x) \<notin> set [(''a'', ''b''), (''a'', ''c'')]"
      by simp_all
    have "''a'' \<in> set (map fst res)" using mset_eq_setD [OF mg] by simp
    then obtain x where x: "(''a'', x) \<in> set res" by auto
    then have "x \<in> set (map snd res)" by force
    then have "x \<in> set [''a'', ''b'', ''c'']" using mset_eq_setD [OF mr] by simp
    with v x show ?thesis by auto
  qed simp
  show ?thesis
    using generateMatching_too_few [of "[''a'']" "[]" zero_rng]
      generateMatching_too_few [of "[''a'', ''b'', ''c'']" "[(''a'', ''b''), (''a'', ''c'')]" zero_rng] n
    by simp
qed


section \<open>Updates of a table: common facts\<close>

lemma list_all2_updateWhere:
  "(\<And>x. x \<in> set xs \<Longrightarrow> R x (if p x then f x else x)) \<Longrightarrow> list_all2 R xs (updateWhere p f xs)"
  unfolding updateWhere_def by (induction xs) auto





section \<open>Creating an exclusion: properties\<close>

text \<open>
  C9. The claim: a self-exclusion is rejected by the exclusion-creation operation and
  stored state is not changed. The client's dialog does refuse a self-exclusion, but the
  route does not: posted with the same participant's id twice, it stores the pair and
  answers with the created row.
\<close>

theorem postExclusions_accepts_self_exclusion:
  "postExclusions ''e1''
      [''participantId'' \<mapsto> JString ''p1'', ''excludedParticipantId'' \<mapsto> JString ''p1'']
      (empty_sys\<lparr>participants := [plain_participant ''p1'' ''Ann'' None None]\<rparr>)
     = (ExclusionCreated \<lparr>e_id = ''e1'', participantId = ''p1'', excludedParticipantId = ''p1''\<rparr>,
        empty_sys\<lparr>participants := [plain_participant ''p1'' ''Ann'' None None],
                  exclusions := [\<lparr>e_id = ''e1'', participantId = ''p1'',
                                  excludedParticipantId = ''p1''\<rparr>]\<rparr>)
   \<and> handleAddExclusion ''p1'' ''p1'' = ToastCannotExcludeSelf"
  by (simp add: postExclusions_def insertExclusionSchema_parse_def createExclusion_def
        handleAddExclusion_def empty_sys_def plain_participant_def Let_def)


section \<open>Reminder times and reminder sweep: properties\<close>


















lemmas reminder_eval =
  sendGiftReminders_def getSlackToken_def getAssignmentsNeedingReminder_def reminderStep_def
  getFirstReminderDate_def getNext10AMInTimezone_def toZonedTime_def fromZonedTime_def
  atReminderHour_def addDays_def orElse_def DEFAULT_TIMEZONE_def REMINDER_HOUR_def
  msPerDay_def msPerHour_def example_tzdb_def fixed_zone_def updateAssignmentNextReminder_def
  updateAssignmentReminderSent_def updateWhere_def postMessage_def fetch_def all_ok_def
  empty_sys_def plain_participant_def Let_def







text \<open>
  C4. The claim: two sweeps at the same clock reading send at most one reminder per
  assignment. When \<open>now\<close> is exactly 10:00:00.000 in the giver's zone they send two: after
  the first send \<open>getNext10AMInTimezone\<close> returns \<open>now\<close> itself (today's 10:00 is not
  before \<open>now\<close>, so it is not moved to tomorrow), and the second sweep finds
  \<open>nextReminderAt\<close> not after \<open>now\<close>. The same happens when the second sweep runs
  a quarter of an hour later.
\<close>

theorem sendGiftReminders_twice_at_ten:
  "fst (sendGiftReminders example_tzdb ten_oclock all_ok due_example)
     = \<lparr>sent = 1, failed = 0, skipped = 0\<rparr>
   \<and> map nextReminderAt
         (assignments (fst (snd (sendGiftReminders example_tzdb ten_oclock all_ok due_example))))
       = [Some ten_oclock]
   \<and> fst (sendGiftReminders example_tzdb ten_oclock all_ok
            (fst (snd (sendGiftReminders example_tzdb ten_oclock all_ok due_example))))
     = \<lparr>sent = 1, failed = 0, skipped = 0\<rparr>
   \<and> map body (outbox (fst (snd (sendGiftReminders example_tzdb ten_oclock all_ok
            (fst (snd (sendGiftReminders example_tzdb ten_oclock all_ok due_example)))))))
     = [GiftReminder True ''Ann'' ''Bob'', GiftReminder False ''Ann'' ''Bob'']
   \<and> fst (sendGiftReminders example_tzdb (ten_oclock + 900000) all_ok
            (fst (snd (sendGiftReminders example_tzdb ten_oclock all_ok due_example))))
     = \<lparr>sent = 1, failed = 0, skipped = 0\<rparr>"
  by (simp add: reminder_eval due_example_def ten_oclock_def)


section \<open>Notification sweep: properties\<close>























section \<open>Gift confirmation: properties\<close>

lemma hgc_not_eligible:
  "find (eligible u) (assignments st) = None
     \<Longrightarrow> handleGiftConfirmation now u t w st = (Returned False, st, w)"
  by (simp add: handleGiftConfirmation_def)

lemma hgc_yes_marks:
  assumes "find (eligible u) (assignments st) = Some ua" and "isYes t"
  shows "list_all2 (marked_sent now (a_id ua)) (assignments st)
           (assignments (fst (snd (handleGiftConfirmation now u t w st))))"
proof -
  let ?g = "\<lambda>a. a\<lparr>giftSent := True, giftSentAt := Some now\<rparr>"
  let ?r = "\<lambda>a::assignment. a\<lparr>receiverNotified := True\<rparr>"
  let ?p = "\<lambda>a. a_id a = a_id ua"
  have a: "list_all2 (marked_sent now (a_id ua)) (assignments st) (updateWhere ?p ?g (assignments st))"
    by (rule list_all2_updateWhere) (simp add: marked_sent_def)
  have b: "list_all2 (marked_sent now (a_id ua)) (assignments st)
             (updateWhere ?p ?r (updateWhere ?p ?g (assignments st)))"
    unfolding updateWhere_def by (induction "assignments st") (auto simp: marked_sent_def list_all2_map2 intro!: list_all2_all_nthI)
  show ?thesis
    using assms a b
    by (simp add: handleGiftConfirmation_def Let_def postMessage_def updateAssignmentGiftStatus_def
        updateAssignmentReceiverNotified_def
      split: option.split prod.split fetch_result.split)
qed

lemma filter_single_find:
  "filter p xs = [x] \<Longrightarrow> find p xs = Some x"
  by (induction xs) (auto split: if_splits simp: filter_empty_conv find_None_iff)

lemma marked_sent_not_eligible:
  assumes one: "filter (eligible u) xs = [ua]"
    and m: "list_all2 (marked_sent now (a_id ua)) xs ys"
  shows "find (eligible u) ys = None"
proof -
  have "\<not> eligible u y" if "y \<in> set ys" for y
  proof -
    from that m obtain x where x: "x \<in> set xs" "marked_sent now (a_id ua) x y"
      by (metis in_set_conv_nth list_all2_conv_all_nth)
    show ?thesis
    proof (cases "a_id x = a_id ua")
      case True
      with x show ?thesis by (simp add: marked_sent_def eligible_def)
    next
      case False
      with x have "y = x" by (simp add: marked_sent_def)
      moreover have "\<not> eligible u x"
      proof
        assume "eligible u x"
        with x(1) have "x \<in> set (filter (eligible u) xs)" by simp
        with one have "x = ua" by simp
        with False show False by simp
      qed
      ultimately show ?thesis by simp
    qed
  qed
  then show ?thesis by (simp add: find_None_iff)
qed

lemma hgc_repeated_idle:
  "find (eligible u) (assignments st) = None
     \<Longrightarrow> handleGiftConfirmation_repeated now u t ws st = st"
  by (induction ws) (simp_all add: hgc_not_eligible)

lemma hgc_yes_notices:
  assumes "find (eligible u) (assignments st) = Some ua" and "isYes t"
  shows "receiverNotices (fst (snd (handleGiftConfirmation now u t w st)))
           = receiverNotices st @
             (if truthy (slackUserId (receiver ua)) \<and> \<not> receiverNotified ua
              then [\<lparr>channel = the (slackUserId (receiver ua)), body = GiftOnItsWay\<rparr>] else [])"
  using assms
  by (simp add: handleGiftConfirmation_def Let_def postMessage_def updateAssignmentGiftStatus_def
        updateAssignmentReceiverNotified_def receiverNotices_def
      split: option.split prod.split fetch_result.split)

lemma hgc_no:
  assumes "find (eligible u) (assignments st) = Some ua" and "isNo t" and "\<not> isYes t"
  shows "fst (snd (handleGiftConfirmation now u t w st))
           = postMessage u (PleaseSendSoon (name (receiver ua))) st"
  using assms
  by (simp add: handleGiftConfirmation_def split: option.split prod.split fetch_result.split)

lemma hgc_handled:
  assumes "find (eligible u) (assignments st) = Some ua" and "isYes t \<or> isNo t"
  shows "fst (handleGiftConfirmation now u t w st) \<noteq> Returned False"
  using assms
  by (auto simp add: handleGiftConfirmation_def Let_def split: option.split prod.split fetch_result.split)

lemma psm_handled:
  assumes "fst (handleGiftConfirmation now u (trim (toLowerCase text)) w st) \<noteq> Returned False"
    and "getSlackToken st \<noteq> None"
  shows "snd (processSlackMessage now newId u text w st)
           = snd (handleGiftConfirmation now u (trim (toLowerCase text)) w st)"
proof -
  obtain r st1 w1 where h: "handleGiftConfirmation now u (trim (toLowerCase text)) w st = (r, st1, w1)"
    by (cases "handleGiftConfirmation now u (trim (toLowerCase text)) w st")
  with assms(1) have "r \<noteq> Returned False" by simp
  then have "r = Thrown \<or> r = Returned True" by (cases r) auto
  with h assms(2) show ?thesis
    by (auto simp: processSlackMessage_def Let_def)
qed


lemma confirm_example_eligible:
  "filter (eligible ''U1'') (assignments confirm_example)
     = [reminded_assignment ''a1'' (plain_participant ''p1'' ''Ann'' (Some ''U1'') None)
          (plain_participant ''p2'' ''Bob'' (Some ''U2'') None) 0 100]"
  by (simp add: confirm_example_def empty_sys_def reminded_assignment_def
        plain_participant_def eligible_def)

text \<open>
  C6, as the claim states it: an affirmative reply sends the receiver's notification
  exactly once. Where the receiver has no Slack user id the gift is marked as sent and no
  notification is sent at all.
\<close>

theorem handleGiftConfirmation_once_counterexample:
  "map giftSent (assignments
       (handleGiftConfirmation_repeated 1000 ''U1'' ''yes'' [all_ok] confirm_example_no_slack))
     = [True]
   \<and> receiverNotices
       (handleGiftConfirmation_repeated 1000 ''U1'' ''yes'' [all_ok] confirm_example_no_slack)
     = []"
  by (simp add: confirm_example_no_slack_def empty_sys_def reminded_assignment_def
        plain_participant_def eligible_def handleGiftConfirmation_def isYes_def isNo_def Let_def
        updateAssignmentGiftStatus_def updateWhere_def postMessage_def fetch_def all_ok_def
        receiverNotices_def startsWith_def)

text \<open>
  C6, amended. The giver \<open>u\<close> has exactly one eligible assignment \<open>ua\<close>. After an
  affirmative reply, handled once or any number of times more (whatever the network does
  each time), every row with \<open>ua\<close>'s id is marked as sent, every other row is unchanged,
  and the receiver's notification has been requested once if the receiver has a Slack user
  id and \<open>receiverNotified\<close> was not set, and not at all otherwise. A negative reply only
  adds the encouragement message to the giver. In \<open>processSlackMessage\<close> a reply that is
  affirmative or negative is handled by the gift confirmation alone: the onboarding
  conversation is not reached.
\<close>

theorem handleGiftConfirmation_once:
  assumes "filter (eligible u) (assignments st) = [ua]"
  shows "(isYes t \<longrightarrow>
            list_all2 (marked_sent now (a_id ua)) (assignments st)
              (assignments (handleGiftConfirmation_repeated now u t (w # ws) st))
          \<and> receiverNotices (handleGiftConfirmation_repeated now u t (w # ws) st)
              = receiverNotices st @
                (if truthy (slackUserId (receiver ua)) \<and> \<not> receiverNotified ua
                 then [\<lparr>channel = the (slackUserId (receiver ua)), body = GiftOnItsWay\<rparr>]
                 else []))
       \<and> (isNo t \<and> \<not> isYes t \<longrightarrow>
            fst (snd (handleGiftConfirmation now u t w st))
              = postMessage u (PleaseSendSoon (name (receiver ua))) st)
       \<and> ((isYes (trim (toLowerCase text)) \<or> isNo (trim (toLowerCase text)))
             \<and> getSlackToken st \<noteq> None \<longrightarrow>
            snd (processSlackMessage now newId u text w st)
              = snd (handleGiftConfirmation now u (trim (toLowerCase text)) w st))"
proof -
  have f: "find (eligible u) (assignments st) = Some ua"
    using assms by (rule filter_single_find)
  have yes: "list_all2 (marked_sent now (a_id ua)) (assignments st)
              (assignments (handleGiftConfirmation_repeated now u t (w # ws) st))
          \<and> receiverNotices (handleGiftConfirmation_repeated now u t (w # ws) st)
              = receiverNotices st @
                (if truthy (slackUserId (receiver ua)) \<and> \<not> receiverNotified ua
                 then [\<lparr>channel = the (slackUserId (receiver ua)), body = GiftOnItsWay\<rparr>]
                 else [])" if y: "isYes t"
  proof -
    let ?st1 = "fst (snd (handleGiftConfirmation now u t w st))"
    have m: "list_all2 (marked_sent now (a_id ua)) (assignments st) (assignments ?st1)"
      using f y by (rule hgc_yes_marks)
    have "find (eligible u) (assignments ?st1) = None"
      using assms m by (rule marked_sent_not_eligible)
    then have "handleGiftConfirmation_repeated now u t (w # ws) st = ?st1"
      by (simp add: hgc_repeated_idle)
    with m hgc_yes_notices [OF f y] show ?thesis by simp
  qed
  have no: "isNo t \<and> \<not> isYes t \<longrightarrow>
            fst (snd (handleGiftConfirmation now u t w st))
              = postMessage u (PleaseSendSoon (name (receiver ua))) st"
    using hgc_no [OF f] by blast
  have first: "(isYes (trim (toLowerCase text)) \<or> isNo (trim (toLowerCase text)))
             \<and> getSlackToken st \<noteq> None \<longrightarrow>
            snd (processSlackMessage now newId u text w st)
              = snd (handleGiftConfirmation now u (trim (toLowerCase text)) w st)"
    using psm_handled hgc_handled [OF f] by blast
  from yes no first show ?thesis by blast
qed


theorem handleGiftConfirmation_once_witness:
  "filter (eligible ''U1'') (assignments confirm_example)
     = [reminded_assignment ''a1'' (plain_participant ''p1'' ''Ann'' (Some ''U1'') None)
          (plain_participant ''p2'' ''Bob'' (Some ''U2'') None) 0 100]
   \<and> isYes ''yes''
   \<and> map giftSent (assignments
         (handleGiftConfirmation_repeated 1000 ''U1'' ''yes'' [all_ok, all_ok] confirm_example))
       = [True]
   \<and> receiverNotices
         (handleGiftConfirmation_repeated 1000 ''U1'' ''yes'' [all_ok, all_ok] confirm_example)
       = [\<lparr>channel = ''U2'', body = GiftOnItsWay\<rparr>]"
proof -
  let ?ua = "reminded_assignment ''a1'' (plain_participant ''p1'' ''Ann'' (Some ''U1'') None)
          (plain_participant ''p2'' ''Bob'' (Some ''U2'') None) 0 100"
  have y: "isYes ''yes''" by (simp add: isYes_def)
  from handleGiftConfirmation_once [OF confirm_example_eligible, of "''yes''" 1000 all_ok "[all_ok]"] y
  have m: "list_all2 (marked_sent 1000 (a_id ?ua)) (assignments confirm_example)
             (assignments (handleGiftConfirmation_repeated 1000 ''U1'' ''yes'' [all_ok, all_ok]
                confirm_example))"
    and n: "receiverNotices
              (handleGiftConfirmation_repeated 1000 ''U1'' ''yes'' [all_ok, all_ok] confirm_example)
            = receiverNotices confirm_example @
                (if truthy (slackUserId (receiver ?ua)) \<and> \<not> receiverNotified ?ua
                 then [\<lparr>channel = the (slackUserId (receiver ?ua)), body = GiftOnItsWay\<rparr>]
                 else [])"
    by blast+
  from m have "map giftSent (assignments
         (handleGiftConfirmation_repeated 1000 ''U1'' ''yes'' [all_ok, all_ok] confirm_example))
       = [True]"
    by (auto simp: confirm_example_def empty_sys_def list_all2_Cons1 marked_sent_def
          reminded_assignment_def)
  moreover from n have "receiverNotices
         (handleGiftConfirmation_repeated 1000 ''U1'' ''yes'' [all_ok, all_ok] confirm_example)
       = [\<lparr>channel = ''U2'', body = GiftOnItsWay\<rparr>]"
    by (simp add: confirm_example_def empty_sys_def receiverNotices_def reminded_assignment_def
          plain_participant_def)
  ultimately show ?thesis using confirm_example_eligible y by simp
qed

lemma hgc_yes_no_encouragement:
  assumes "find (eligible u) (assignments st) = Some ua" and "isYes t"
  shows "filter isEncouragement (outbox (fst (snd (handleGiftConfirmation now u t w st))))
           = filter isEncouragement (outbox st)"
  using assms
  by (simp add: handleGiftConfirmation_def Let_def postMessage_def updateAssignmentGiftStatus_def
        updateAssignmentReceiverNotified_def isEncouragement_def
      split: option.split prod.split fetch_result.split)

text \<open>
  C10, as the claim states it: "not sent yet" would match the negative vocabulary as
  well. It matches the affirmative test only: it contains "sent", and it is neither "no"
  nor "n" nor does it contain "not yet".
\<close>

theorem isNo_not_sent_yet_counterexample:
  "isYes ''not sent yet'' \<and> \<not> isNo ''not sent yet''"
  by (simp add: isYes_def isNo_def startsWith_def)

text \<open>
  C10, amended. For a giver with an eligible assignment, a message whose lowercased text
  is "yes" or "y" or contains "sent" or "done" is handled as the affirmative reply,
  whether or not it passes the negative test too: the handler does not answer "not
  handled", the assignment found is marked as sent, and no encouragement message is added.
  "not yet sent" is a message that passes both tests; "not sent yet" passes the
  affirmative test only.
\<close>

theorem handleGiftConfirmation_affirmative_first:
  assumes "find (eligible u) (assignments st) = Some ua" and "isYes t"
  shows "fst (handleGiftConfirmation now u t w st) \<noteq> Returned False
       \<and> ua \<in> set (assignments st)
       \<and> list_all2 (marked_sent now (a_id ua)) (assignments st)
            (assignments (fst (snd (handleGiftConfirmation now u t w st))))
       \<and> filter isEncouragement (outbox (fst (snd (handleGiftConfirmation now u t w st))))
            = filter isEncouragement (outbox st)
       \<and> isYes ''not yet sent'' \<and> isNo ''not yet sent'' \<and> isYes ''not sent yet''"
proof -
  have "ua \<in> set (assignments st)" using assms(1) by (auto simp: find_Some_iff)
  moreover have "isYes ''not yet sent'' \<and> isNo ''not yet sent'' \<and> isYes ''not sent yet''"
    by (simp add: isYes_def isNo_def startsWith_def)
  ultimately show ?thesis
    using hgc_handled [OF assms(1)] assms(2) hgc_yes_marks [OF assms]
      hgc_yes_no_encouragement [OF assms]
    by blast
qed

theorem handleGiftConfirmation_affirmative_first_witness:
  "find (eligible ''U1'') (assignments confirm_example)
     = Some (reminded_assignment ''a1'' (plain_participant ''p1'' ''Ann'' (Some ''U1'') None)
          (plain_participant ''p2'' ''Bob'' (Some ''U2'') None) 0 100)
   \<and> isYes ''not yet sent'' \<and> isNo ''not yet sent''
   \<and> fst (handleGiftConfirmation 1000 ''U1'' ''not yet sent'' all_ok confirm_example)
       \<noteq> Returned False
   \<and> map giftSent (assignments
         (fst (snd (handleGiftConfirmation 1000 ''U1'' ''not yet sent'' all_ok confirm_example))))
       = [True]"
proof -
  let ?ua = "reminded_assignment ''a1'' (plain_participant ''p1'' ''Ann'' (Some ''U1'') None)
          (plain_participant ''p2'' ''Bob'' (Some ''U2'') None) 0 100"
  have f: "find (eligible ''U1'') (assignments confirm_example) = Some ?ua"
    using confirm_example_eligible by (rule filter_single_find)
  have y: "isYes ''not yet sent''" by (simp add: isYes_def startsWith_def)
  have n: "isNo ''not yet sent''" by (simp add: isNo_def startsWith_def)
  from handleGiftConfirmation_affirmative_first [OF f y, of 1000 all_ok]
  have h: "fst (handleGiftConfirmation 1000 ''U1'' ''not yet sent'' all_ok confirm_example)
             \<noteq> Returned False"
    and m: "list_all2 (marked_sent 1000 (a_id ?ua)) (assignments confirm_example)
             (assignments (fst (snd (handleGiftConfirmation 1000 ''U1'' ''not yet sent'' all_ok
                confirm_example))))"
    by blast+
  from m have "map giftSent (assignments
         (fst (snd (handleGiftConfirmation 1000 ''U1'' ''not yet sent'' all_ok confirm_example))))
       = [True]"
    by (auto simp: confirm_example_def empty_sys_def list_all2_Cons1 marked_sent_def
          reminded_assignment_def)
  with f y n h show ?thesis by simp
qed


section \<open>Onboarding conversation: properties\<close>






lemma cf_frame [simp]:
  "collectedFields (s\<lparr>conversationState := x\<rparr>) = collectedFields s"
  "collectedFields (s\<lparr>lastInteractionAt := y\<rparr>) = collectedFields s"
  by (simp_all add: collectedFields_def)























end
